theory Spec2Isabelle
  imports Main "HOL-Library.AList"
begin

section \<open>Data model of core.py\<close>

text \<open>
  Every reading of \<open>datetime.now()\<close> is an input of the model. A timestamp is a
  number of seconds; the log folder names its copies at that granularity.
\<close>

type_synonym timestamp = nat

text \<open>
  The transaction type is one of two strings in the source: the one written by
  \<open>add_inbound\<close> (line 127) and the one written by \<open>add_outbound\<close> (line 160).
  \<open>update_inventory\<close> tests for the first and treats everything else as the second.
\<close>

datatype direction = Inbound | Outbound

text \<open>
  A row of \<open>df_transactions\<close> (columns of line 27): date, transaction type, item,
  sender or receiver, operator, remarks. The table has no quantity column.
\<close>

record transaction_row =
  date :: timestamp
  in_out :: direction
  t_item :: string
  sender_receiver :: string
  operator :: string
  remarks :: string

text \<open>
  A row of \<open>df_inventory\<close> (columns of line 34): time of last change, item,
  quantity in stock.
\<close>

record inventory_row =
  last_changed :: timestamp
  i_item :: string
  in_stock :: int

type_synonym snapshot = "transaction_row list \<times> inventory_row list"

text \<open>
  The module's global state: the two data frames, the two stacks (Python lists,
  pushed and popped at the end), the two CSV files and the log folder, which maps
  a timestamp prefix to the pair of copies written under it.
\<close>

record state =
  df_transactions :: "transaction_row list"
  df_inventory :: "inventory_row list"
  undo_stack :: "snapshot list"
  redo_stack :: "snapshot list"
  transaction_csv :: "transaction_row list"
  inventory_csv :: "inventory_row list"
  log_dir :: "(timestamp \<times> snapshot) list"

text \<open>
  The strings the functions return, one constructor per message of the source:
  line 98, line 88, line 96, line 146, line 178, line 190, line 196, line 205, line 211.
  \<open>InsufficientStock\<close> is the message that the outbound would make the stock of the
  item negative; \<open>UnknownItem\<close> is the message that the item is not in the inventory.
\<close>

datatype message =
    InventoryUpdated
  | InsufficientStock string
  | UnknownItem string
  | InboundRecorded
  | OutboundRecorded
  | NoUndoHistory
  | UndoDone
  | NoRedoHistory
  | RedoDone

text \<open>
  The readings of the clock during one call of \<open>add_inbound\<close> or \<open>add_outbound\<close>,
  in the order they are taken: in \<open>log_files\<close> (line 54), in the function itself
  (lines 126, 159) and in \<open>update_inventory\<close> (line 79).
\<close>

record clock =
  log_time :: timestamp
  tx_time :: timestamp
  inv_time :: timestamp

section \<open>Logging and saving\<close>

text \<open>
  \<open>log_files\<close> (lines 46-58) copies both CSV files into the log folder under the
  timestamp; a copy made in the same second replaces the earlier one. Both files
  exist from module initialisation on (lines 24-35).
\<close>

definition log_files :: "timestamp \<Rightarrow> state \<Rightarrow> state" where
  "log_files ts s =
     s\<lparr>log_dir := AList.update ts (transaction_csv s, inventory_csv s) (log_dir s)\<rparr>"

definition save_transactions :: "state \<Rightarrow> state" where
  "save_transactions s = s\<lparr>transaction_csv := df_transactions s\<rparr>"

definition save_inventory :: "state \<Rightarrow> state" where
  "save_inventory s = s\<lparr>inventory_csv := df_inventory s\<rparr>"

section \<open>Inventory update\<close>

text \<open>
  Line 80 tests whether the item occurs in the item column and line 81 takes the
  index of its first occurrence; \<open>index_of\<close> does both: \<open>None\<close> when the item does
  not occur, the first index otherwise.
\<close>

fun index_of :: "string \<Rightarrow> inventory_row list \<Rightarrow> nat option" where
  "index_of item [] = None"
| "index_of item (r # rs) =
     (if i_item r = item then Some 0
      else (case index_of item rs of None \<Rightarrow> None | Some k \<Rightarrow> Some (Suc k)))"

text \<open>Lines 89-90: both cells of row \<open>idx\<close> are overwritten.\<close>

definition set_row :: "nat \<Rightarrow> int \<Rightarrow> timestamp \<Rightarrow> inventory_row list \<Rightarrow> inventory_row list" where
  "set_row idx new_stock now rows =
     rows[idx := (rows ! idx)\<lparr>in_stock := new_stock, last_changed := now\<rparr>]"

text \<open>\<open>update_inventory\<close> (lines 72-98) returns the pair (success, message).\<close>

definition update_inventory ::
  "timestamp \<Rightarrow> string \<Rightarrow> direction \<Rightarrow> int \<Rightarrow> state \<Rightarrow> (bool \<times> message) \<times> state" where
  "update_inventory now item transaction_type quantity s =
     (case index_of item (df_inventory s) of
        Some idx \<Rightarrow>
          (let current_stock = in_stock (df_inventory s ! idx) in
           (case transaction_type of
              Inbound \<Rightarrow>
                (let new_stock = current_stock + quantity in
                 ((True, InventoryUpdated),
                  save_inventory (s\<lparr>df_inventory := set_row idx new_stock now (df_inventory s)\<rparr>)))
            | Outbound \<Rightarrow>
                (let new_stock = current_stock - quantity in
                 if new_stock < 0 then ((False, InsufficientStock item), s)
                 else ((True, InventoryUpdated),
                       save_inventory (s\<lparr>df_inventory := set_row idx new_stock now (df_inventory s)\<rparr>)))))
      | None \<Rightarrow>
          (case transaction_type of
             Inbound \<Rightarrow>
               (let new_row = \<lparr>last_changed = now, i_item = item, in_stock = quantity\<rparr> in
                ((True, InventoryUpdated),
                 save_inventory (s\<lparr>df_inventory := df_inventory s @ [new_row]\<rparr>)))
           | Outbound \<Rightarrow> ((False, UnknownItem item), s)))"

section \<open>Transactions\<close>

text \<open>
  \<open>process_image\<close> (lines 103-113): no upload gives the empty path; an upload is
  written under the data directory and its path there is returned. The upload is
  given by its base name; the bytes written are not part of the model.
\<close>

definition process_image :: "string option \<Rightarrow> string" where
  "process_image file_obj =
     (case file_obj of None \<Rightarrow> [] | Some filename \<Rightarrow> ''./data/'' @ filename)"

text \<open>\<open>add_inbound\<close> (lines 115-146). The quantity arrives as an integer (line 128).\<close>

definition add_inbound ::
  "clock \<Rightarrow> string \<Rightarrow> string \<Rightarrow> string \<Rightarrow> string \<Rightarrow> int \<Rightarrow> string option \<Rightarrow> state
     \<Rightarrow> message \<times> state" where
  "add_inbound clk item sender operator_name remark quantity img s =
     (let s1 = log_files (log_time clk) s;
          s2 = s1\<lparr>undo_stack := undo_stack s1 @ [(df_transactions s1, df_inventory s1)]\<rparr>;
          s3 = s2\<lparr>redo_stack := []\<rparr>;
          now = tx_time clk;
          transaction_type = Inbound;
          image_path = process_image img;
          remark' = (if image_path \<noteq> [] then remark @ '' || image:'' @ image_path else remark);
          new_record = \<lparr>date = now, in_out = transaction_type, t_item = item,
                        sender_receiver = sender, operator = operator_name, remarks = remark'\<rparr>;
          ((success, msg), s4) = update_inventory (inv_time clk) item transaction_type quantity s3
      in if \<not> success then (msg, s4)
         else (InboundRecorded,
               save_transactions (s4\<lparr>df_transactions := df_transactions s4 @ [new_record]\<rparr>)))"

text \<open>\<open>add_outbound\<close> (lines 148-178).\<close>

definition add_outbound ::
  "clock \<Rightarrow> string \<Rightarrow> string \<Rightarrow> string \<Rightarrow> string \<Rightarrow> int \<Rightarrow> string option \<Rightarrow> state
     \<Rightarrow> message \<times> state" where
  "add_outbound clk item sender operator_name remark quantity img s =
     (let s1 = log_files (log_time clk) s;
          s2 = s1\<lparr>undo_stack := undo_stack s1 @ [(df_transactions s1, df_inventory s1)]\<rparr>;
          s3 = s2\<lparr>redo_stack := []\<rparr>;
          now = tx_time clk;
          transaction_type = Outbound;
          image_path = process_image img;
          remark' = (if image_path \<noteq> [] then remark @ '' || image:'' @ image_path else remark);
          ((success, msg), s4) = update_inventory (inv_time clk) item transaction_type quantity s3
      in if \<not> success then (msg, s4)
         else (let new_record = \<lparr>date = now, in_out = transaction_type, t_item = item,
                        sender_receiver = sender, operator = operator_name, remarks = remark'\<rparr>
               in (OutboundRecorded,
                   save_transactions (s4\<lparr>df_transactions := df_transactions s4 @ [new_record]\<rparr>))))"

section \<open>Undo and redo\<close>

text \<open>
  \<open>undo_action\<close> (lines 183-196) and \<open>redo_action\<close> (lines 198-211). The data frame
  returned beside the message is the \<open>df_transactions\<close> of the returned state.
\<close>

definition undo_action :: "state \<Rightarrow> message \<times> state" where
  "undo_action s =
     (if undo_stack s = [] then (NoUndoHistory, s)
      else (let s1 = s\<lparr>redo_stack := redo_stack s @ [(df_transactions s, df_inventory s)]\<rparr>;
                st = last (undo_stack s1);
                s2 = s1\<lparr>undo_stack := butlast (undo_stack s1)\<rparr>;
                s3 = s2\<lparr>df_transactions := fst st, df_inventory := snd st\<rparr>
            in (UndoDone, save_inventory (save_transactions s3))))"

definition redo_action :: "state \<Rightarrow> message \<times> state" where
  "redo_action s =
     (if redo_stack s = [] then (NoRedoHistory, s)
      else (let s1 = s\<lparr>undo_stack := undo_stack s @ [(df_transactions s, df_inventory s)]\<rparr>;
                st = last (redo_stack s1);
                s2 = s1\<lparr>redo_stack := butlast (redo_stack s1)\<rparr>;
                s3 = s2\<lparr>df_transactions := fst st, df_inventory := snd st\<rparr>
            in (RedoDone, save_inventory (save_transactions s3))))"

section \<open>Requests and runs\<close>

text \<open>
  What the form hands to \<open>add_inbound\<close> or \<open>add_outbound\<close> (lines 332-338), with
  the clock readings of the call.
\<close>

record request =
  r_clock :: clock
  r_item :: string
  r_sender_receiver :: string
  r_operator :: string
  r_remarks :: string
  r_quantity :: int
  r_image :: "string option"

text \<open>The four buttons that change the state (lines 332-344).\<close>

datatype action = AddInbound request | AddOutbound request | Undo | Redo

fun perform :: "action \<Rightarrow> state \<Rightarrow> message \<times> state" where
  "perform (AddInbound r) s =
     add_inbound (r_clock r) (r_item r) (r_sender_receiver r) (r_operator r) (r_remarks r)
       (r_quantity r) (r_image r) s"
| "perform (AddOutbound r) s =
     add_outbound (r_clock r) (r_item r) (r_sender_receiver r) (r_operator r) (r_remarks r)
       (r_quantity r) (r_image r) s"
| "perform Undo s = undo_action s"
| "perform Redo s = redo_action s"

fun run :: "action list \<Rightarrow> state \<Rightarrow> state" where
  "run [] s = s"
| "run (a # as) s = run as (snd (perform a s))"

text \<open>
  The state after module initialisation when no CSV file exists yet
  (lines 27-28, 34-35, 40-41).
\<close>

definition init_state :: state where
  "init_state =
     \<lparr>df_transactions = [], df_inventory = [], undo_stack = [], redo_stack = [],
      transaction_csv = [], inventory_csv = [], log_dir = []\<rparr>"

text \<open>A request is committed when its function returns the message of line 146 or 178.\<close>

definition committed_msg :: "message \<Rightarrow> bool" where
  "committed_msg m \<longleftrightarrow> m = InboundRecorded \<or> m = OutboundRecorded"

text \<open>The actions of a run that were committed, in order.\<close>

fun committed :: "action list \<Rightarrow> state \<Rightarrow> action list" where
  "committed [] s = []"
| "committed (a # as) s =
     (if committed_msg (fst (perform a s)) then a # committed as (snd (perform a s))
      else committed as (snd (perform a s)))"

fun is_transaction :: "action \<Rightarrow> bool" where
  "is_transaction (AddInbound r) = True"
| "is_transaction (AddOutbound r) = True"
| "is_transaction Undo = False"
| "is_transaction Redo = False"

fun quantity_positive :: "action \<Rightarrow> bool" where
  "quantity_positive (AddInbound r) = (0 < r_quantity r)"
| "quantity_positive (AddOutbound r) = (0 < r_quantity r)"
| "quantity_positive Undo = True"
| "quantity_positive Redo = True"

text \<open>The quantities a list of requests moves in and out of one item.\<close>

fun inbound_quantity :: "string \<Rightarrow> action \<Rightarrow> int" where
  "inbound_quantity item (AddInbound r) = (if r_item r = item then r_quantity r else 0)"
| "inbound_quantity item (AddOutbound r) = 0"
| "inbound_quantity item Undo = 0"
| "inbound_quantity item Redo = 0"

fun outbound_quantity :: "string \<Rightarrow> action \<Rightarrow> int" where
  "outbound_quantity item (AddInbound r) = 0"
| "outbound_quantity item (AddOutbound r) = (if r_item r = item then r_quantity r else 0)"
| "outbound_quantity item Undo = 0"
| "outbound_quantity item Redo = 0"

definition inbound_sum :: "string \<Rightarrow> action list \<Rightarrow> int" where
  "inbound_sum item acts = sum_list (map (inbound_quantity item) acts)"

definition outbound_sum :: "string \<Rightarrow> action list \<Rightarrow> int" where
  "outbound_sum item acts = sum_list (map (outbound_quantity item) acts)"

text \<open>What a committed request writes into the journal about itself: type and item.\<close>

fun journal_key :: "action \<Rightarrow> (direction \<times> string) option" where
  "journal_key (AddInbound r) = Some (Inbound, r_item r)"
| "journal_key (AddOutbound r) = Some (Outbound, r_item r)"
| "journal_key Undo = None"
| "journal_key Redo = None"

text \<open>
  The stock \<open>update_inventory\<close> reads for an item (lines 80-82): the quantity of the
  first row of the item, \<open>None\<close> when the table has no row of it.
\<close>

definition stock_of :: "string \<Rightarrow> inventory_row list \<Rightarrow> int option" where
  "stock_of item rows =
     (case index_of item rows of None \<Rightarrow> None | Some idx \<Rightarrow> Some (in_stock (rows ! idx)))"

text \<open>Example inputs: a clock, a request for a widget, and the example run of the specification.\<close>

definition clock_at :: "timestamp \<Rightarrow> clock" where
  "clock_at t = \<lparr>log_time = t, tx_time = t, inv_time = t\<rparr>"

definition widget :: "timestamp \<Rightarrow> int \<Rightarrow> request" where
  "widget t q =
     \<lparr>r_clock = clock_at t, r_item = ''widget'', r_sender_receiver = ''acme'',
      r_operator = ''lee'', r_remarks = ''none'', r_quantity = q, r_image = None\<rparr>"

definition example_run :: "action list" where
  "example_run =
     [AddInbound (widget 1 10), AddOutbound (widget 2 4), AddOutbound (widget 3 100), Undo, Redo]"

section \<open>Predicates used in the proofs\<close>

text \<open>The stock of an item, counting an item without a row as zero.\<close>

definition level :: "string \<Rightarrow> inventory_row list \<Rightarrow> int" where
  "level item rows = (case stock_of item rows of None \<Rightarrow> 0 | Some c \<Rightarrow> c)"

text \<open>The type and the item of every journal row, in order.\<close>

definition journal_keys :: "transaction_row list \<Rightarrow> (direction \<times> string) list" where
  "journal_keys rows = map (\<lambda>x. (in_out x, t_item x)) rows"

text \<open>
  The invariant that ties the two tables to the committed requests \<open>cs\<close>: every
  stock is the difference of the two sums, an item has a row in the stock table
  exactly when the journal has a row of it, and the journal has one row per
  committed request.
\<close>

definition ledger_inv :: "state \<Rightarrow> action list \<Rightarrow> bool" where
  "ledger_inv s cs \<longleftrightarrow>
     (\<forall>i. level i (df_inventory s) = inbound_sum i cs - outbound_sum i cs)
   \<and> (\<forall>i. stock_of i (df_inventory s) \<noteq> None \<longleftrightarrow> i \<in> snd ` set (journal_keys (df_transactions s)))
   \<and> journal_keys (df_transactions s) = List.map_filter journal_key cs"

text \<open>
  No negative quantity in the stock table, in the snapshots of a stack, and in a
  state with its two stacks.
\<close>

definition stock_nonneg :: "inventory_row list \<Rightarrow> bool" where
  "stock_nonneg rows = list_all (\<lambda>r. 0 \<le> in_stock r) rows"

definition snapshots_nonneg :: "snapshot list \<Rightarrow> bool" where
  "snapshots_nonneg st = list_all (\<lambda>p. stock_nonneg (snd p)) st"

definition state_nonneg :: "state \<Rightarrow> bool" where
  "state_nonneg s \<longleftrightarrow>
     stock_nonneg (df_inventory s) \<and> snapshots_nonneg (undo_stack s) \<and> snapshots_nonneg (redo_stack s)"

text \<open>The three requests of the example of the specification.\<close>

definition example_requests :: "action list" where
  "example_requests =
     [AddInbound (widget 1 10), AddOutbound (widget 2 4), AddOutbound (widget 3 100)]"

text \<open>A run whose second request is rejected and whose last request is committed.\<close>

definition rejected_then_committed :: "action list" where
  "rejected_then_committed =
     [AddInbound (widget 1 10), AddOutbound (widget 2 100), AddOutbound (widget 3 4)]"

section \<open>Facts about the inventory table\<close>

lemma index_of_None_iff: "index_of item rows = None \<longleftrightarrow> item \<notin> i_item ` set rows"
  by (induction rows) (auto split: option.splits)

lemma index_of_SomeD:
  "index_of item rows = Some k \<Longrightarrow> k < length rows \<and> i_item (rows ! k) = item"
  by (induction rows arbitrary: k) (auto split: option.splits if_splits)

lemma update_inventory_frame:
  "undo_stack (snd (update_inventory now item d q s)) = undo_stack s"
  "redo_stack (snd (update_inventory now item d q s)) = redo_stack s"
  "log_dir (snd (update_inventory now item d q s)) = log_dir s"
  "df_transactions (snd (update_inventory now item d q s)) = df_transactions s"
  "transaction_csv (snd (update_inventory now item d q s)) = transaction_csv s"
  by (simp_all add: update_inventory_def save_inventory_def Let_def
      split: option.split direction.split)

text \<open>A failed outbound returns after the push and the clear, with nothing else changed.\<close>

lemma add_outbound_failed:
  assumes "\<not> fst (fst (update_inventory (inv_time clk) item Outbound quantity s))"
  shows "add_outbound clk item sender opr remark quantity img s =
           (snd (fst (update_inventory (inv_time clk) item Outbound quantity s)),
            s\<lparr>log_dir := AList.update (log_time clk) (transaction_csv s, inventory_csv s) (log_dir s),
              undo_stack := undo_stack s @ [(df_transactions s, df_inventory s)],
              redo_stack := []\<rparr>)"
  using assms
  by (auto simp add: add_outbound_def update_inventory_def log_files_def Let_def
      split: option.splits if_splits)

lemma update_inventory_insufficient:
  assumes "stock_of item (df_inventory s) = Some cur" and "cur < quantity"
  shows "update_inventory now item Outbound quantity s = ((False, InsufficientStock item), s)"
  using assms by (auto simp add: update_inventory_def stock_of_def Let_def split: option.splits)

lemma update_inventory_unknown:
  assumes "item \<notin> i_item ` set (df_inventory s)"
  shows "update_inventory now item Outbound quantity s = ((False, UnknownItem item), s)"
proof -
  have "index_of item (df_inventory s) = None"
    using assms by (simp add: index_of_None_iff)
  then show ?thesis
    by (simp add: update_inventory_def)
qed

section \<open>Facts about the two transaction functions\<close>

lemmas run_defs =
  widget_def clock_at_def init_state_def add_inbound_def add_outbound_def undo_action_def
  redo_action_def update_inventory_def log_files_def save_inventory_def save_transactions_def
  process_image_def stock_of_def set_row_def Let_def

lemma add_inbound_committed:
  "add_inbound clk item sender opr remark quantity img s =
     (InboundRecorded,
      (snd (update_inventory (inv_time clk) item Inbound quantity
             (s\<lparr>log_dir := AList.update (log_time clk) (transaction_csv s, inventory_csv s) (log_dir s),
                undo_stack := undo_stack s @ [(df_transactions s, df_inventory s)],
                redo_stack := []\<rparr>)))
      \<lparr>df_transactions := df_transactions s @
          [\<lparr>date = tx_time clk, in_out = Inbound, t_item = item, sender_receiver = sender,
            operator = opr,
            remarks = (if process_image img \<noteq> [] then remark @ '' || image:'' @ process_image img
                       else remark)\<rparr>],
        transaction_csv := df_transactions s @
          [\<lparr>date = tx_time clk, in_out = Inbound, t_item = item, sender_receiver = sender,
            operator = opr,
            remarks = (if process_image img \<noteq> [] then remark @ '' || image:'' @ process_image img
                       else remark)\<rparr>]\<rparr>)"
  by (simp add: add_inbound_def update_inventory_def log_files_def save_inventory_def
      save_transactions_def Let_def split: option.split)

lemma add_outbound_committed:
  assumes "fst (fst (update_inventory (inv_time clk) item Outbound quantity s))"
  shows "add_outbound clk item sender opr remark quantity img s =
     (OutboundRecorded,
      (snd (update_inventory (inv_time clk) item Outbound quantity
             (s\<lparr>log_dir := AList.update (log_time clk) (transaction_csv s, inventory_csv s) (log_dir s),
                undo_stack := undo_stack s @ [(df_transactions s, df_inventory s)],
                redo_stack := []\<rparr>)))
      \<lparr>df_transactions := df_transactions s @
          [\<lparr>date = tx_time clk, in_out = Outbound, t_item = item, sender_receiver = sender,
            operator = opr,
            remarks = (if process_image img \<noteq> [] then remark @ '' || image:'' @ process_image img
                       else remark)\<rparr>],
        transaction_csv := df_transactions s @
          [\<lparr>date = tx_time clk, in_out = Outbound, t_item = item, sender_receiver = sender,
            operator = opr,
            remarks = (if process_image img \<noteq> [] then remark @ '' || image:'' @ process_image img
                       else remark)\<rparr>]\<rparr>)"
  using assms
  by (auto simp add: add_outbound_def update_inventory_def log_files_def save_inventory_def
      save_transactions_def Let_def split: option.splits if_splits)

lemma update_inventory_message:
  "snd (fst (update_inventory now item d q s)) \<noteq> InboundRecorded"
  "snd (fst (update_inventory now item d q s)) \<noteq> OutboundRecorded"
  by (simp_all add: update_inventory_def Let_def split: option.split direction.split)

lemma add_outbound_effects:
  "log_dir (snd (add_outbound clk item sender opr remark quantity img s))
     = AList.update (log_time clk) (transaction_csv s, inventory_csv s) (log_dir s)"
  "undo_stack (snd (add_outbound clk item sender opr remark quantity img s))
     = undo_stack s @ [(df_transactions s, df_inventory s)]"
  "redo_stack (snd (add_outbound clk item sender opr remark quantity img s)) = []"
proof -
  show "log_dir (snd (add_outbound clk item sender opr remark quantity img s))
     = AList.update (log_time clk) (transaction_csv s, inventory_csv s) (log_dir s)"
    by (cases "fst (fst (update_inventory (inv_time clk) item Outbound quantity s))")
       (simp_all add: add_outbound_committed add_outbound_failed update_inventory_frame)
  show "undo_stack (snd (add_outbound clk item sender opr remark quantity img s))
     = undo_stack s @ [(df_transactions s, df_inventory s)]"
    by (cases "fst (fst (update_inventory (inv_time clk) item Outbound quantity s))")
       (simp_all add: add_outbound_committed add_outbound_failed update_inventory_frame)
  show "redo_stack (snd (add_outbound clk item sender opr remark quantity img s)) = []"
    by (cases "fst (fst (update_inventory (inv_time clk) item Outbound quantity s))")
       (simp_all add: add_outbound_committed add_outbound_failed update_inventory_frame)
qed

lemma add_inbound_effects:
  "fst (add_inbound clk item sender opr remark quantity img s) = InboundRecorded"
  "log_dir (snd (add_inbound clk item sender opr remark quantity img s))
     = AList.update (log_time clk) (transaction_csv s, inventory_csv s) (log_dir s)"
  "undo_stack (snd (add_inbound clk item sender opr remark quantity img s))
     = undo_stack s @ [(df_transactions s, df_inventory s)]"
  "redo_stack (snd (add_inbound clk item sender opr remark quantity img s)) = []"
  "length (df_transactions (snd (add_inbound clk item sender opr remark quantity img s)))
     = Suc (length (df_transactions s))"
  by (simp_all add: add_inbound_committed update_inventory_frame)

lemma add_outbound_message:
  "committed_msg (fst (add_outbound clk item sender opr remark quantity img s))
     \<longleftrightarrow> fst (fst (update_inventory (inv_time clk) item Outbound quantity s))"
  by (cases "fst (fst (update_inventory (inv_time clk) item Outbound quantity s))")
     (simp_all add: add_outbound_committed add_outbound_failed committed_msg_def
        update_inventory_message)

section \<open>The inbound path of the inventory update\<close>

text \<open>
  C10. For every item, every integer quantity and every state, \<open>update_inventory\<close>
  with the inbound transaction type returns success, whether the item has a row
  or not: the two failure returns (lines 88 and 96) lie on the outbound branches
  only. So \<open>add_inbound\<close> never takes its error return (line 142) and always
  returns the message of line 146.
\<close>

theorem update_inventory_inbound_succeeds:
  "fst (fst (update_inventory now item Inbound quantity s)) = True
   \<and> snd (fst (update_inventory now item Inbound quantity s)) = InventoryUpdated
   \<and> fst (add_inbound clk item sender opr remark quantity img s) = InboundRecorded"
  by (simp add: update_inventory_def add_inbound_effects Let_def split: option.split)

section \<open>Rejected outbound requests\<close>

text \<open>
  C4. An outbound request for an item that is in the stock table, with a quantity
  greater than the stock read for it, returns the insufficient-stock message, and
  the stock table and the journal are as before, in memory and on disk.
\<close>

theorem outbound_insufficient_stock:
  assumes "stock_of item (df_inventory s) = Some cur" and "cur < quantity"
  shows "fst (add_outbound clk item sender opr remark quantity img s) = InsufficientStock item
       \<and> df_inventory (snd (add_outbound clk item sender opr remark quantity img s)) = df_inventory s
       \<and> df_transactions (snd (add_outbound clk item sender opr remark quantity img s)) = df_transactions s
       \<and> inventory_csv (snd (add_outbound clk item sender opr remark quantity img s)) = inventory_csv s
       \<and> transaction_csv (snd (add_outbound clk item sender opr remark quantity img s)) = transaction_csv s"
  using add_outbound_failed [of clk item quantity s sender opr remark img]
    update_inventory_insufficient [OF assms, of "inv_time clk"]
  by simp

theorem outbound_insufficient_stock_witness:
  "stock_of ''widget'' (df_inventory (run [AddInbound (widget 1 10)] init_state)) = Some 10
   \<and> (10::int) < 100
   \<and> fst (add_outbound (clock_at 2) ''widget'' ''acme'' ''lee'' ''none'' 100 None
            (run [AddInbound (widget 1 10)] init_state)) = InsufficientStock ''widget''
   \<and> df_inventory (snd (add_outbound (clock_at 2) ''widget'' ''acme'' ''lee'' ''none'' 100 None
            (run [AddInbound (widget 1 10)] init_state)))
       = df_inventory (run [AddInbound (widget 1 10)] init_state)"
proof -
  have h1: "stock_of ''widget'' (df_inventory (run [AddInbound (widget 1 10)] init_state)) = Some 10"
    by (simp add: stock_of_def widget_def clock_at_def init_state_def add_inbound_def
        update_inventory_def log_files_def save_inventory_def save_transactions_def
        process_image_def Let_def)
  have h2: "(10::int) < 100" by simp
  show ?thesis
    using h1 h2 outbound_insufficient_stock [OF h1 h2, of "clock_at 2" "''acme''" "''lee''" "''none''" None]
    by simp
qed

text \<open>
  C5. An outbound request for an item that has no row in the stock table returns
  the unknown-item message, which is not the insufficient-stock message, and the
  stock table and the journal are as before, in memory and on disk.
\<close>

theorem outbound_unknown_item:
  assumes "item \<notin> i_item ` set (df_inventory s)"
  shows "fst (add_outbound clk item sender opr remark quantity img s) = UnknownItem item
       \<and> UnknownItem item \<noteq> InsufficientStock item'
       \<and> df_inventory (snd (add_outbound clk item sender opr remark quantity img s)) = df_inventory s
       \<and> df_transactions (snd (add_outbound clk item sender opr remark quantity img s)) = df_transactions s
       \<and> inventory_csv (snd (add_outbound clk item sender opr remark quantity img s)) = inventory_csv s
       \<and> transaction_csv (snd (add_outbound clk item sender opr remark quantity img s)) = transaction_csv s"
  using add_outbound_failed [of clk item quantity s sender opr remark img]
    update_inventory_unknown [OF assms, of "inv_time clk" quantity]
  by simp

theorem outbound_unknown_item_witness:
  "''gadget'' \<notin> i_item ` set (df_inventory init_state)
   \<and> fst (add_outbound (clock_at 1) ''gadget'' ''acme'' ''lee'' ''none'' 1 None init_state)
       = UnknownItem ''gadget''
   \<and> df_inventory (snd (add_outbound (clock_at 1) ''gadget'' ''acme'' ''lee'' ''none'' 1 None init_state))
       = df_inventory init_state
   \<and> df_transactions (snd (add_outbound (clock_at 1) ''gadget'' ''acme'' ''lee'' ''none'' 1 None init_state))
       = df_transactions init_state"
proof -
  have h: "''gadget'' \<notin> i_item ` set (df_inventory init_state)"
    by (simp add: init_state_def)
  show ?thesis
    using h outbound_unknown_item [OF h, of "clock_at 1" "''acme''" "''lee''" "''none''" 1 None]
    by simp
qed

section \<open>Undo and redo as inverses\<close>

text \<open>
  C8. In every state whose undo stack is not empty, undo followed at once by redo
  succeeds twice and gives back the journal and the stock table of the state
  before the undo; the two stacks are as before too.
\<close>

theorem undo_then_redo:
  assumes "undo_stack s \<noteq> []"
  shows "fst (undo_action s) = UndoDone
       \<and> fst (redo_action (snd (undo_action s))) = RedoDone
       \<and> df_transactions (snd (redo_action (snd (undo_action s)))) = df_transactions s
       \<and> df_inventory (snd (redo_action (snd (undo_action s)))) = df_inventory s
       \<and> undo_stack (snd (redo_action (snd (undo_action s)))) = undo_stack s
       \<and> redo_stack (snd (redo_action (snd (undo_action s)))) = redo_stack s"
  using assms
  by (simp add: undo_action_def redo_action_def save_transactions_def save_inventory_def Let_def)

theorem undo_then_redo_witness:
  "undo_stack (run [AddInbound (widget 1 10)] init_state) \<noteq> []
   \<and> df_transactions (snd (redo_action (snd (undo_action (run [AddInbound (widget 1 10)] init_state)))))
       = df_transactions (run [AddInbound (widget 1 10)] init_state)
   \<and> df_inventory (snd (redo_action (snd (undo_action (run [AddInbound (widget 1 10)] init_state)))))
       = df_inventory (run [AddInbound (widget 1 10)] init_state)"
proof -
  have h: "undo_stack (run [AddInbound (widget 1 10)] init_state) \<noteq> []"
    by (simp add: add_inbound_effects)
  show ?thesis
    using h undo_then_redo [OF h] by simp
qed

section \<open>The redo stack after a commit\<close>

text \<open>
  C9. After every committed inbound or outbound request, in whatever state it was
  made (after an undo too), the redo stack is empty, and a redo then returns the
  no-redo-history message and leaves the state as it is.
\<close>

theorem commit_clears_redo:
  assumes "committed_msg (fst (perform a s))"
  shows "redo_stack (snd (perform a s)) = []
       \<and> redo_action (snd (perform a s)) = (NoRedoHistory, snd (perform a s))"
proof -
  have "redo_stack (snd (perform a s)) = []"
    using assms
    by (cases a)
       (simp_all add: add_inbound_effects add_outbound_effects committed_msg_def
          undo_action_def redo_action_def Let_def split: if_splits)
  then show ?thesis
    by (simp add: redo_action_def)
qed

theorem commit_clears_redo_witness:
  "committed_msg (fst (perform (AddInbound (widget 3 5)) (run [AddInbound (widget 1 10), Undo] init_state)))
   \<and> redo_stack (run [AddInbound (widget 1 10), Undo] init_state) \<noteq> []
   \<and> redo_stack (snd (perform (AddInbound (widget 3 5)) (run [AddInbound (widget 1 10), Undo] init_state))) = []
   \<and> fst (redo_action (snd (perform (AddInbound (widget 3 5))
        (run [AddInbound (widget 1 10), Undo] init_state)))) = NoRedoHistory"
proof -
  have h: "committed_msg (fst (perform (AddInbound (widget 3 5))
             (run [AddInbound (widget 1 10), Undo] init_state)))"
    by (simp add: add_inbound_effects committed_msg_def)
  have r: "redo_stack (run [AddInbound (widget 1 10), Undo] init_state) \<noteq> []"
    by (simp add: undo_action_def add_inbound_effects Let_def save_transactions_def save_inventory_def)
  show ?thesis
    using h r commit_clears_redo [OF h] by simp
qed

section \<open>Requests whose inventory update fails\<close>

text \<open>
  C2 as stated does not hold: after a request whose inventory update fails, the
  snapshot pushed at line 156 is still on the undo stack and the redo stack has
  been cleared. Here an outbound request for an unknown item is made after an
  inbound request and an undo.
\<close>

theorem failed_request_stack_counterexample:
  "\<not> fst (fst (update_inventory 3 ''gadget'' Outbound 1 (run [AddInbound (widget 1 10), Undo] init_state)))
   \<and> undo_stack (snd (add_outbound (clock_at 3) ''gadget'' ''acme'' ''lee'' ''none'' 1 None
        (run [AddInbound (widget 1 10), Undo] init_state)))
       \<noteq> undo_stack (run [AddInbound (widget 1 10), Undo] init_state)
   \<and> redo_stack (snd (add_outbound (clock_at 3) ''gadget'' ''acme'' ''lee'' ''none'' 1 None
        (run [AddInbound (widget 1 10), Undo] init_state)))
       \<noteq> redo_stack (run [AddInbound (widget 1 10), Undo] init_state)"
  by (simp add: run_defs)

text \<open>
  C2, amended. For every inbound or outbound request that is not committed, the
  journal and the stock table are as before the request, in memory and on disk;
  the snapshot of the state before the request stays on top of the undo stack
  and the redo stack is empty.
\<close>

theorem failed_request_effects:
  assumes "is_transaction a" and "\<not> committed_msg (fst (perform a s))"
  shows "df_transactions (snd (perform a s)) = df_transactions s
       \<and> df_inventory (snd (perform a s)) = df_inventory s
       \<and> transaction_csv (snd (perform a s)) = transaction_csv s
       \<and> inventory_csv (snd (perform a s)) = inventory_csv s
       \<and> undo_stack (snd (perform a s)) = undo_stack s @ [(df_transactions s, df_inventory s)]
       \<and> redo_stack (snd (perform a s)) = []"
proof (cases a)
  case (AddInbound r)
  then show ?thesis
    using assms by (simp add: add_inbound_effects committed_msg_def)
next
  case (AddOutbound r)
  then have "\<not> fst (fst (update_inventory (inv_time (r_clock r)) (r_item r) Outbound (r_quantity r) s))"
    using assms by (simp add: add_outbound_message)
  then show ?thesis
    using AddOutbound by (simp add: add_outbound_failed)
qed (use assms in simp_all)

theorem failed_request_effects_witness:
  "is_transaction (AddOutbound (widget 3 100))
   \<and> \<not> committed_msg (fst (perform (AddOutbound (widget 3 100)) (run [AddInbound (widget 1 10), Undo, Redo] init_state)))
   \<and> df_inventory (snd (perform (AddOutbound (widget 3 100)) (run [AddInbound (widget 1 10), Undo, Redo] init_state)))
       = df_inventory (run [AddInbound (widget 1 10), Undo, Redo] init_state)
   \<and> length (undo_stack (snd (perform (AddOutbound (widget 3 100)) (run [AddInbound (widget 1 10), Undo, Redo] init_state)))) = 2"
proof -
  have h1: "is_transaction (AddOutbound (widget 3 100))" by simp
  have h2: "\<not> committed_msg (fst (perform (AddOutbound (widget 3 100))
               (run [AddInbound (widget 1 10), Undo, Redo] init_state)))"
    by (simp add: run_defs committed_msg_def)
  have h3: "length (undo_stack (run [AddInbound (widget 1 10), Undo, Redo] init_state)) = 1"
    by (simp add: run_defs)
  show ?thesis
    using h1 h2 h3 failed_request_effects [OF h1 h2] by simp
qed

section \<open>Requests with a quantity that is not positive\<close>

text \<open>
  C3 as stated does not hold: an inbound request with a negative quantity is
  committed. The copy into the log folder is made, the snapshot is pushed, a
  journal row is appended and the stock of the item is changed.
\<close>

theorem nonpositive_quantity_counterexample:
  "\<not> (0::int) < - 15
   \<and> fst (add_inbound (clock_at 2) ''widget'' ''acme'' ''lee'' ''none'' (- 15) None
        (run [AddInbound (widget 1 10)] init_state)) = InboundRecorded
   \<and> stock_of ''widget'' (df_inventory (snd (add_inbound (clock_at 2) ''widget'' ''acme'' ''lee'' ''none'' (- 15) None
        (run [AddInbound (widget 1 10)] init_state)))) = Some (- 5)
   \<and> length (df_transactions (snd (add_inbound (clock_at 2) ''widget'' ''acme'' ''lee'' ''none'' (- 15) None
        (run [AddInbound (widget 1 10)] init_state)))) = 2
   \<and> length (undo_stack (snd (add_inbound (clock_at 2) ''widget'' ''acme'' ''lee'' ''none'' (- 15) None
        (run [AddInbound (widget 1 10)] init_state)))) = 2
   \<and> length (undo_stack (run [AddInbound (widget 1 10)] init_state)) = 1
   \<and> length (log_dir (snd (add_inbound (clock_at 2) ''widget'' ''acme'' ''lee'' ''none'' (- 15) None
        (run [AddInbound (widget 1 10)] init_state)))) = 2
   \<and> length (log_dir (run [AddInbound (widget 1 10)] init_state)) = 1"
  by (simp add: run_defs)

text \<open>
  C3, amended. A request whose quantity is an integer that is not positive is not
  rejected up front. As for every request, the CSV files are copied into the log
  folder, the snapshot of the journal and the stock table is pushed onto the undo
  stack and the redo stack is cleared; an inbound request is then committed
  with one more journal row.
\<close>

theorem nonpositive_quantity_effects:
  assumes "quantity \<le> 0"
  shows "fst (add_inbound clk item sender opr remark quantity img s) = InboundRecorded
       \<and> length (df_transactions (snd (add_inbound clk item sender opr remark quantity img s)))
           = Suc (length (df_transactions s))
       \<and> log_dir (snd (add_inbound clk item sender opr remark quantity img s))
           = AList.update (log_time clk) (transaction_csv s, inventory_csv s) (log_dir s)
       \<and> undo_stack (snd (add_inbound clk item sender opr remark quantity img s))
           = undo_stack s @ [(df_transactions s, df_inventory s)]
       \<and> redo_stack (snd (add_inbound clk item sender opr remark quantity img s)) = []
       \<and> log_dir (snd (add_outbound clk item sender opr remark quantity img s))
           = AList.update (log_time clk) (transaction_csv s, inventory_csv s) (log_dir s)
       \<and> undo_stack (snd (add_outbound clk item sender opr remark quantity img s))
           = undo_stack s @ [(df_transactions s, df_inventory s)]
       \<and> redo_stack (snd (add_outbound clk item sender opr remark quantity img s)) = []"
  by (simp add: add_inbound_effects add_outbound_effects)

theorem nonpositive_quantity_effects_witness:
  "(0::int) \<le> 0
   \<and> fst (add_inbound (clock_at 1) ''widget'' ''acme'' ''lee'' ''none'' 0 None init_state)
       = InboundRecorded
   \<and> undo_stack (snd (add_inbound (clock_at 1) ''widget'' ''acme'' ''lee'' ''none'' 0 None init_state))
       = [([], [])]
   \<and> undo_stack (snd (add_outbound (clock_at 1) ''widget'' ''acme'' ''lee'' ''none'' 0 None init_state))
       = [([], [])]
   \<and> log_dir (snd (add_outbound (clock_at 1) ''widget'' ''acme'' ''lee'' ''none'' 0 None init_state))
       = [(1, ([], []))]"
proof -
  have h: "(0::int) \<le> 0" by simp
  show ?thesis
    using nonpositive_quantity_effects [OF h, of "clock_at 1" "''widget''" "''acme''" "''lee''"
        "''none''" None init_state]
    by (simp add: init_state_def clock_at_def)
qed

section \<open>The stock table and the committed requests\<close>

lemma stock_of_Nil: "stock_of i [] = None"
  by (simp add: stock_of_def)

lemma stock_of_Cons:
  "stock_of i (r # rs) = (if i_item r = i then Some (in_stock r) else stock_of i rs)"
  by (simp add: stock_of_def split: option.split)

lemma stock_of_set_row:
  "index_of item rows = Some idx \<Longrightarrow>
   stock_of i (set_row idx v t rows) = (if i = item then Some v else stock_of i rows)"
proof (induction rows arbitrary: idx)
  case Nil
  then show ?case by simp
next
  case (Cons r rs)
  show ?case
  proof (cases "i_item r = item")
    case True
    then have "idx = 0" using Cons.prems by simp
    then show ?thesis using True by (auto simp add: set_row_def stock_of_Cons)
  next
    case False
    then obtain k where k: "index_of item rs = Some k" "idx = Suc k"
      using Cons.prems by (auto split: option.splits)
    have "stock_of i (set_row k v t rs) = (if i = item then Some v else stock_of i rs)"
      using Cons.IH [OF k(1)] .
    then show ?thesis
      using False k(2) by (auto simp add: set_row_def stock_of_Cons)
  qed
qed

lemma stock_of_append_new:
  "index_of item rows = None \<Longrightarrow>
   stock_of i (rows @ [\<lparr>last_changed = t, i_item = item, in_stock = q\<rparr>])
     = (if i = item then Some q else stock_of i rows)"
  by (induction rows) (auto simp add: stock_of_Cons stock_of_Nil split: option.splits if_splits)

lemma stock_of_None_iff: "stock_of i rows = None \<longleftrightarrow> index_of i rows = None"
  by (simp add: stock_of_def split: option.split)



lemma update_inventory_inbound_rows:
  "df_inventory (snd (update_inventory now item Inbound q s)) =
     (case index_of item (df_inventory s) of
        None \<Rightarrow> df_inventory s @ [\<lparr>last_changed = now, i_item = item, in_stock = q\<rparr>]
      | Some idx \<Rightarrow> set_row idx (in_stock (df_inventory s ! idx) + q) now (df_inventory s))"
  by (simp add: update_inventory_def save_inventory_def Let_def split: option.split)

lemma update_inventory_inbound_stock:
  "stock_of i (df_inventory (snd (update_inventory now item Inbound q s)))
     = (if i = item then Some (level item (df_inventory s) + q) else stock_of i (df_inventory s))"
proof (cases "index_of item (df_inventory s)")
  case None
  then have "level item (df_inventory s) = 0"
    by (simp add: level_def stock_of_def)
  then show ?thesis
    using None by (simp add: update_inventory_inbound_rows stock_of_append_new)
next
  case (Some idx)
  then have "level item (df_inventory s) = in_stock (df_inventory s ! idx)"
    by (simp add: level_def stock_of_def)
  then show ?thesis
    using Some by (simp add: update_inventory_inbound_rows stock_of_set_row)
qed

lemma update_inventory_outbound_stock:
  assumes "fst (fst (update_inventory now item Outbound q s))"
  shows "stock_of i (df_inventory (snd (update_inventory now item Outbound q s)))
     = (if i = item then Some (level item (df_inventory s) - q) else stock_of i (df_inventory s))"
    and "stock_of item (df_inventory s) \<noteq> None"
proof -
  obtain idx where idx: "index_of item (df_inventory s) = Some idx"
    using assms by (cases "index_of item (df_inventory s)") (auto simp add: update_inventory_def)
  have ok: "\<not> in_stock (df_inventory s ! idx) - q < 0"
    using assms idx by (auto simp add: update_inventory_def Let_def split: if_splits)
  have rows: "df_inventory (snd (update_inventory now item Outbound q s))
      = set_row idx (in_stock (df_inventory s ! idx) - q) now (df_inventory s)"
    using idx ok by (simp add: update_inventory_def save_inventory_def Let_def)
  have "level item (df_inventory s) = in_stock (df_inventory s ! idx)"
    using idx by (simp add: level_def stock_of_def)
  then show "stock_of i (df_inventory (snd (update_inventory now item Outbound q s)))
     = (if i = item then Some (level item (df_inventory s) - q) else stock_of i (df_inventory s))"
    using idx by (simp add: rows stock_of_set_row)
  show "stock_of item (df_inventory s) \<noteq> None"
    using idx by (simp add: stock_of_def)
qed

lemma update_inventory_inv_only:
  "df_inventory s = df_inventory t \<Longrightarrow>
   df_inventory (snd (update_inventory now item d q s)) = df_inventory (snd (update_inventory now item d q t))
   \<and> fst (update_inventory now item d q s) = fst (update_inventory now item d q t)"
  by (simp add: update_inventory_def save_inventory_def Let_def split: option.split direction.split)

lemma run_append: "run (xs @ ys) s = run ys (run xs s)"
  by (induction xs arbitrary: s) simp_all

lemma sums_snoc:
  "inbound_sum i (cs @ [a]) = inbound_sum i cs + inbound_quantity i a"
  "outbound_sum i (cs @ [a]) = outbound_sum i cs + outbound_quantity i a"
  by (simp_all add: inbound_sum_def outbound_sum_def)

lemma map_filter_snoc:
  "List.map_filter f (xs @ [x]) = List.map_filter f xs @ (case f x of None \<Rightarrow> [] | Some y \<Rightarrow> [y])"
  by (simp add: List.map_filter_def split: option.split)

lemma perform_inbound:
  "fst (perform (AddInbound r) s) = InboundRecorded"
  "journal_keys (df_transactions (snd (perform (AddInbound r) s)))
     = journal_keys (df_transactions s) @ [(Inbound, r_item r)]"
  "stock_of i (df_inventory (snd (perform (AddInbound r) s)))
     = (if i = r_item r then Some (level (r_item r) (df_inventory s) + r_quantity r)
        else stock_of i (df_inventory s))"
proof -
  show "fst (perform (AddInbound r) s) = InboundRecorded"
    by (simp add: add_inbound_effects)
  show "journal_keys (df_transactions (snd (perform (AddInbound r) s)))
     = journal_keys (df_transactions s) @ [(Inbound, r_item r)]"
    by (simp add: add_inbound_committed journal_keys_def)
  show "stock_of i (df_inventory (snd (perform (AddInbound r) s)))
     = (if i = r_item r then Some (level (r_item r) (df_inventory s) + r_quantity r)
        else stock_of i (df_inventory s))"
    by (simp add: add_inbound_committed update_inventory_inbound_stock)
qed

lemma perform_outbound_committed:
  assumes "committed_msg (fst (perform (AddOutbound r) s))"
  shows "journal_keys (df_transactions (snd (perform (AddOutbound r) s)))
     = journal_keys (df_transactions s) @ [(Outbound, r_item r)]"
    and "stock_of i (df_inventory (snd (perform (AddOutbound r) s)))
     = (if i = r_item r then Some (level (r_item r) (df_inventory s) - r_quantity r)
        else stock_of i (df_inventory s))"
    and "stock_of (r_item r) (df_inventory s) \<noteq> None"
proof -
  have ok: "fst (fst (update_inventory (inv_time (r_clock r)) (r_item r) Outbound (r_quantity r) s))"
    using assms by (simp add: add_outbound_message)
  let ?s3 = "s\<lparr>log_dir := AList.update (log_time (r_clock r)) (transaction_csv s, inventory_csv s) (log_dir s),
                undo_stack := undo_stack s @ [(df_transactions s, df_inventory s)],
                redo_stack := []\<rparr>"
  have ok3: "fst (fst (update_inventory (inv_time (r_clock r)) (r_item r) Outbound (r_quantity r) ?s3))"
    using ok update_inventory_inv_only [of ?s3 s] by simp
  show "journal_keys (df_transactions (snd (perform (AddOutbound r) s)))
     = journal_keys (df_transactions s) @ [(Outbound, r_item r)]"
    using ok by (simp add: add_outbound_committed journal_keys_def)
  show "stock_of i (df_inventory (snd (perform (AddOutbound r) s)))
     = (if i = r_item r then Some (level (r_item r) (df_inventory s) - r_quantity r)
        else stock_of i (df_inventory s))"
    using ok update_inventory_outbound_stock(1) [OF ok3, of i]
    by (simp add: add_outbound_committed)
  show "stock_of (r_item r) (df_inventory s) \<noteq> None"
    using update_inventory_outbound_stock(2) [OF ok] .
qed

lemma perform_outbound_failed:
  assumes "\<not> committed_msg (fst (perform (AddOutbound r) s))"
  shows "df_transactions (snd (perform (AddOutbound r) s)) = df_transactions s"
    and "df_inventory (snd (perform (AddOutbound r) s)) = df_inventory s"
proof -
  have "\<not> fst (fst (update_inventory (inv_time (r_clock r)) (r_item r) Outbound (r_quantity r) s))"
    using assms by (simp add: add_outbound_message)
  then show "df_transactions (snd (perform (AddOutbound r) s)) = df_transactions s"
    and "df_inventory (snd (perform (AddOutbound r) s)) = df_inventory s"
    by (simp_all add: add_outbound_failed)
qed

lemma level_if:
  "stock_of i rows = Some c \<Longrightarrow> level i rows = c"
  by (simp add: level_def)

lemma ledger_inv_step:
  assumes "is_transaction a" and "ledger_inv s cs"
  shows "ledger_inv (snd (perform a s))
           (if committed_msg (fst (perform a s)) then cs @ [a] else cs)"
proof (cases a)
  case (AddInbound r)
  have c: "committed_msg (fst (perform a s))"
    using AddInbound by (simp add: committed_msg_def add_inbound_effects)
  show ?thesis
    using assms(2) c unfolding ledger_inv_def AddInbound
    by (auto simp add: perform_inbound level_def sums_snoc map_filter_snoc simp del: perform.simps)
next
  case (AddOutbound r)
  show ?thesis
  proof (cases "committed_msg (fst (perform a s))")
    case True
    then have t: "committed_msg (fst (perform (AddOutbound r) s))"
      using AddOutbound by simp
    show ?thesis
      using assms(2) t perform_outbound_committed(3) [OF t]
      unfolding ledger_inv_def AddOutbound
      by (auto simp add: perform_outbound_committed(1,2) [OF t] level_def sums_snoc map_filter_snoc
          simp del: perform.simps)
  next
    case False
    then have f: "\<not> committed_msg (fst (perform (AddOutbound r) s))"
      using AddOutbound by simp
    show ?thesis
      using assms(2) f unfolding ledger_inv_def AddOutbound
      by (simp add: perform_outbound_failed [OF f] del: perform.simps)
  qed
qed (use assms in simp_all)

lemma ledger_inv_run:
  assumes "\<forall>a\<in>set acts. is_transaction a" and "ledger_inv s cs"
  shows "ledger_inv (run acts s) (cs @ committed acts s)"
  using assms
proof (induction acts arbitrary: s cs)
  case Nil
  then show ?case by simp
next
  case (Cons a acts)
  have step: "ledger_inv (snd (perform a s))
           (if committed_msg (fst (perform a s)) then cs @ [a] else cs)"
    using Cons.prems by (simp add: ledger_inv_step)
  have "ledger_inv (run acts (snd (perform a s)))
          ((if committed_msg (fst (perform a s)) then cs @ [a] else cs)
             @ committed acts (snd (perform a s)))"
    using Cons.IH [OF _ step] Cons.prems(1) by simp
  then show ?case
    by (cases "committed_msg (fst (perform a s))") simp_all
qed

lemma ledger_inv_init: "ledger_inv init_state []"
  by (simp add: ledger_inv_def init_state_def level_def stock_of_def inbound_sum_def
      outbound_sum_def journal_keys_def List.map_filter_def)

text \<open>
  C1 as stated does not hold: a journal row records no quantity (line 27 and
  lines 132-139, 168-175), so the stock is not a sum over journal rows. Two runs
  with the same journal end with different stock.
\<close>

theorem journal_has_no_quantity_counterexample:
  "df_transactions (run [AddInbound (widget 1 10)] init_state)
     = df_transactions (run [AddInbound (widget 1 5)] init_state)
   \<and> stock_of ''widget'' (df_inventory (run [AddInbound (widget 1 10)] init_state)) = Some 10
   \<and> stock_of ''widget'' (df_inventory (run [AddInbound (widget 1 5)] init_state)) = Some 5"
  by (simp add: run_defs)

text \<open>
  C1, amended. After every sequence of inbound and outbound requests made from the
  empty state, the stock read for an item is the sum of the quantities of the
  committed inbound requests for the item minus the sum of the quantities of the
  committed outbound requests for it; an item has a stock row exactly when the
  journal has a row of it; and the journal has one row per committed request, in
  order, with its type and item.
\<close>

theorem stock_equals_committed_quantities:
  assumes "\<forall>a\<in>set acts. is_transaction a"
  shows "stock_of item (df_inventory (run acts init_state))
           = (if item \<in> t_item ` set (df_transactions (run acts init_state))
              then Some (inbound_sum item (committed acts init_state)
                         - outbound_sum item (committed acts init_state))
              else None)
       \<and> journal_keys (df_transactions (run acts init_state))
           = List.map_filter journal_key (committed acts init_state)"
proof -
  have inv: "ledger_inv (run acts init_state) (committed acts init_state)"
    using ledger_inv_run [OF assms ledger_inv_init] by simp
  have keys_items: "snd ` set (journal_keys (df_transactions (run acts init_state)))
          = t_item ` set (df_transactions (run acts init_state))"
    by (force simp add: journal_keys_def)
  have "stock_of item (df_inventory (run acts init_state)) \<noteq> None
      \<longleftrightarrow> item \<in> snd ` set (journal_keys (df_transactions (run acts init_state)))"
    using inv by (simp add: ledger_inv_def)
  then have present: "stock_of item (df_inventory (run acts init_state)) \<noteq> None
      \<longleftrightarrow> item \<in> t_item ` set (df_transactions (run acts init_state))"
    by (simp only: keys_items)
  have lev: "level item (df_inventory (run acts init_state))
      = inbound_sum item (committed acts init_state) - outbound_sum item (committed acts init_state)"
    using inv by (simp add: ledger_inv_def)
  have keys: "journal_keys (df_transactions (run acts init_state))
      = List.map_filter journal_key (committed acts init_state)"
    using inv by (simp add: ledger_inv_def)
  show ?thesis
  proof (cases "stock_of item (df_inventory (run acts init_state))")
    case None
    then show ?thesis
      using present keys by simp
  next
    case (Some c)
    then have "level item (df_inventory (run acts init_state)) = c"
      by (simp add: level_def)
    then show ?thesis
      using present keys lev Some by simp
  qed
qed

theorem stock_equals_committed_quantities_witness:
  "list_all is_transaction example_requests
   \<and> stock_of ''widget'' (df_inventory (run example_requests init_state)) = Some 6
   \<and> inbound_sum ''widget'' (committed example_requests init_state) = 10
   \<and> outbound_sum ''widget'' (committed example_requests init_state) = 4"
proof -
  have h: "\<forall>a\<in>set example_requests. is_transaction a"
    by (simp add: example_requests_def)
  have c: "committed example_requests init_state
             = [AddInbound (widget 1 10), AddOutbound (widget 2 4)]"
    by (simp add: example_requests_def run_defs committed_msg_def)
  have j: "''widget'' \<in> t_item ` set (df_transactions (run example_requests init_state))"
    by (simp add: example_requests_def run_defs)
  have i: "inbound_sum ''widget'' [AddInbound (widget 1 10), AddOutbound (widget 2 4)] = 10"
    by (simp add: inbound_sum_def widget_def)
  have out: "outbound_sum ''widget'' [AddInbound (widget 1 10), AddOutbound (widget 2 4)] = 4"
    by (simp add: outbound_sum_def widget_def)
  show ?thesis
    using h stock_equals_committed_quantities [OF h, of "''widget''"] c j i out
    by (simp add: list_all_iff)
qed

section \<open>Non-negative stock\<close>

lemma stock_nonneg_set_row:
  assumes "stock_nonneg rows" and "0 \<le> v"
  shows "stock_nonneg (set_row idx v t rows)"
proof -
  have "set (set_row idx v t rows)
          \<subseteq> insert ((rows ! idx)\<lparr>in_stock := v, last_changed := t\<rparr>) (set rows)"
    unfolding set_row_def by (rule set_update_subset_insert)
  then show ?thesis
    using assms by (auto simp add: stock_nonneg_def list_all_iff)
qed

lemma update_inventory_nonneg:
  assumes "stock_nonneg (df_inventory s)" and "d = Inbound \<longrightarrow> 0 \<le> q"
  shows "stock_nonneg (df_inventory (snd (update_inventory now item d q s)))"
proof (cases "index_of item (df_inventory s)")
  case None
  then show ?thesis
    using assms
    by (cases d) (simp_all add: update_inventory_def save_inventory_def stock_nonneg_def Let_def)
next
  case (Some idx)
  then have "idx < length (df_inventory s)"
    by (simp add: index_of_SomeD)
  then have cur: "0 \<le> in_stock (df_inventory s ! idx)"
    using assms(1) by (simp add: stock_nonneg_def list_all_length)
  show ?thesis
  proof (cases d)
    case Inbound
    then have "0 \<le> in_stock (df_inventory s ! idx) + q"
      using cur assms(2) by simp
    then show ?thesis
      using Some Inbound assms(1)
      by (simp add: update_inventory_def save_inventory_def Let_def stock_nonneg_set_row)
  next
    case Outbound
    then show ?thesis
      using Some assms(1)
      by (simp add: update_inventory_def save_inventory_def Let_def stock_nonneg_set_row)
  qed
qed

lemma snapshots_nonneg_snoc:
  "snapshots_nonneg (st @ [p]) \<longleftrightarrow> snapshots_nonneg st \<and> stock_nonneg (snd p)"
  by (simp add: snapshots_nonneg_def)

lemma snapshots_nonneg_pop:
  assumes "snapshots_nonneg st" and "st \<noteq> []"
  shows "snapshots_nonneg (butlast st) \<and> stock_nonneg (snd (last st))"
proof -
  have "snapshots_nonneg (butlast st @ [last st])"
    using assms by simp
  then show ?thesis
    by (simp only: snapshots_nonneg_snoc)
qed

lemma state_nonneg_step:
  assumes "state_nonneg s" and "quantity_positive a"
  shows "state_nonneg (snd (perform a s))"
proof (cases a)
  case (AddInbound r)
  let ?s3 = "s\<lparr>log_dir := AList.update (log_time (r_clock r)) (transaction_csv s, inventory_csv s) (log_dir s),
                undo_stack := undo_stack s @ [(df_transactions s, df_inventory s)],
                redo_stack := []\<rparr>"
  have "stock_nonneg (df_inventory (snd (update_inventory (inv_time (r_clock r)) (r_item r) Inbound
          (r_quantity r) ?s3)))"
    using assms AddInbound by (intro update_inventory_nonneg) (simp_all add: state_nonneg_def)
  then show ?thesis
    using assms(1) AddInbound
    by (simp add: state_nonneg_def add_inbound_committed update_inventory_frame
        snapshots_nonneg_snoc)
       (simp add: snapshots_nonneg_def)
next
  case (AddOutbound r)
  let ?s3 = "s\<lparr>log_dir := AList.update (log_time (r_clock r)) (transaction_csv s, inventory_csv s) (log_dir s),
                undo_stack := undo_stack s @ [(df_transactions s, df_inventory s)],
                redo_stack := []\<rparr>"
  have nn: "stock_nonneg (df_inventory (snd (update_inventory (inv_time (r_clock r)) (r_item r) Outbound
          (r_quantity r) ?s3)))"
    using assms by (intro update_inventory_nonneg) (simp_all add: state_nonneg_def)
  show ?thesis
  proof (cases "fst (fst (update_inventory (inv_time (r_clock r)) (r_item r) Outbound (r_quantity r) s))")
    case True
    then show ?thesis
      using assms(1) AddOutbound nn
      by (simp add: state_nonneg_def add_outbound_committed update_inventory_frame
          snapshots_nonneg_snoc)
         (simp add: snapshots_nonneg_def)
  next
    case False
    then show ?thesis
      using assms(1) AddOutbound
      by (simp add: state_nonneg_def add_outbound_failed snapshots_nonneg_snoc)
         (simp add: snapshots_nonneg_def)
  qed
next
  case Undo
  show ?thesis
  proof (cases "undo_stack s = []")
    case True
    then show ?thesis using assms(1) Undo by (simp add: undo_action_def)
  next
    case False
    then show ?thesis
      using assms(1) Undo snapshots_nonneg_pop [of "undo_stack s"]
      by (simp add: state_nonneg_def undo_action_def save_transactions_def save_inventory_def
          Let_def snapshots_nonneg_snoc)
  qed
next
  case Redo
  show ?thesis
  proof (cases "redo_stack s = []")
    case True
    then show ?thesis using assms(1) Redo by (simp add: redo_action_def)
  next
    case False
    then show ?thesis
      using assms(1) Redo snapshots_nonneg_pop [of "redo_stack s"]
      by (simp add: state_nonneg_def redo_action_def save_transactions_def save_inventory_def
          Let_def snapshots_nonneg_snoc)
  qed
qed

lemma state_nonneg_run:
  assumes "state_nonneg s" and "\<forall>a\<in>set acts. quantity_positive a"
  shows "state_nonneg (run acts s)"
  using assms
  by (induction acts arbitrary: s) (simp_all add: state_nonneg_step)

text \<open>
  C6. From a state with empty stacks and no negative quantity in the stock table,
  after every sequence of inbound, outbound, undo and redo actions whose requests
  have positive quantities, no quantity in the stock table is negative; and an
  outbound request that would make the stock of its item negative returns the
  insufficient-stock message with the stock table and the journal as before.
\<close>

theorem stock_never_negative:
  assumes "\<forall>a\<in>set acts. quantity_positive a"
      and "stock_nonneg (df_inventory s0)"
      and "undo_stack s0 = []" and "redo_stack s0 = []"
  shows "stock_nonneg (df_inventory (run acts s0))
       \<and> (\<forall>cur. stock_of item (df_inventory (run acts s0)) = Some cur \<and> cur - quantity < 0 \<longrightarrow>
            fst (add_outbound clk item sender opr remark quantity img (run acts s0))
              = InsufficientStock item
          \<and> df_inventory (snd (add_outbound clk item sender opr remark quantity img (run acts s0)))
              = df_inventory (run acts s0)
          \<and> df_transactions (snd (add_outbound clk item sender opr remark quantity img (run acts s0)))
              = df_transactions (run acts s0))"
proof -
  have "state_nonneg s0"
    using assms(2-4) by (simp add: state_nonneg_def snapshots_nonneg_def)
  then have "state_nonneg (run acts s0)"
    using assms(1) by (rule state_nonneg_run)
  then have first: "stock_nonneg (df_inventory (run acts s0))"
    by (simp add: state_nonneg_def)
  have second: "fst (add_outbound clk item sender opr remark quantity img (run acts s0))
              = InsufficientStock item
          \<and> df_inventory (snd (add_outbound clk item sender opr remark quantity img (run acts s0)))
              = df_inventory (run acts s0)
          \<and> df_transactions (snd (add_outbound clk item sender opr remark quantity img (run acts s0)))
              = df_transactions (run acts s0)"
    if "stock_of item (df_inventory (run acts s0)) = Some cur" and "cur - quantity < 0" for cur
  proof -
    have "cur < quantity" using that(2) by simp
    then show ?thesis
      using add_outbound_failed [of clk item quantity "run acts s0" sender opr remark img]
        update_inventory_insufficient [OF that(1), of quantity "inv_time clk"]
      by simp
  qed
  show ?thesis
    using first second by blast
qed

theorem stock_never_negative_witness:
  "list_all quantity_positive example_run
   \<and> stock_nonneg (df_inventory init_state)
   \<and> undo_stack init_state = [] \<and> redo_stack init_state = []
   \<and> stock_nonneg (df_inventory (run example_run init_state))
   \<and> stock_of ''widget'' (df_inventory (run example_run init_state)) = Some 6
   \<and> fst (add_outbound (clock_at 9) ''widget'' ''acme'' ''lee'' ''none'' 7 None
            (run example_run init_state)) = InsufficientStock ''widget''"
proof -
  have h1: "\<forall>a\<in>set example_run. quantity_positive a"
    by (simp add: example_run_def widget_def)
  have h2: "stock_nonneg (df_inventory init_state)"
    by (simp add: init_state_def stock_nonneg_def)
  have h3: "undo_stack init_state = []" and h4: "redo_stack init_state = []"
    by (simp_all add: init_state_def)
  have st: "stock_of ''widget'' (df_inventory (run example_run init_state)) = Some 6"
    by (simp add: example_run_def run_defs)
  show ?thesis
    using h1 h2 h3 h4 st
      stock_never_negative [OF h1 h2 h3 h4, of "''widget''" 7 "clock_at 9" "''acme''" "''lee''"
        "''none''" None]
    by (simp add: list_all_iff)
qed

section \<open>Undo after N committed transactions\<close>

lemma perform_committed:
  assumes "committed_msg (fst (perform a s))"
  shows "length (df_transactions (snd (perform a s))) = Suc (length (df_transactions s))"
    and "undo_stack (snd (perform a s)) = undo_stack s @ [(df_transactions s, df_inventory s)]"
    and "redo_stack (snd (perform a s)) = []"
proof -
  have all: "length (df_transactions (snd (perform a s))) = Suc (length (df_transactions s))
     \<and> undo_stack (snd (perform a s)) = undo_stack s @ [(df_transactions s, df_inventory s)]
     \<and> redo_stack (snd (perform a s)) = []"
  proof (cases a)
    case (AddInbound r)
    then show ?thesis by (simp add: add_inbound_effects)
  next
    case (AddOutbound r)
    then have "fst (fst (update_inventory (inv_time (r_clock r)) (r_item r) Outbound (r_quantity r) s))"
      using assms by (simp add: add_outbound_message)
    then show ?thesis
      using AddOutbound by (simp add: add_outbound_committed update_inventory_frame)
  next
    case Undo
    then show ?thesis
      using assms by (simp add: undo_action_def committed_msg_def Let_def split: if_splits)
  next
    case Redo
    then show ?thesis
      using assms by (simp add: redo_action_def committed_msg_def Let_def split: if_splits)
  qed
  show "length (df_transactions (snd (perform a s))) = Suc (length (df_transactions s))"
    and "undo_stack (snd (perform a s)) = undo_stack s @ [(df_transactions s, df_inventory s)]"
    and "redo_stack (snd (perform a s)) = []"
    using all by simp_all
qed

lemma committed_append:
  "committed (xs @ ys) s = committed xs s @ committed ys (run xs s)"
  by (induction xs arbitrary: s) simp_all

lemma transaction_pushes:
  assumes "is_transaction a"
  shows "undo_stack (snd (perform a s)) = undo_stack s @ [(df_transactions s, df_inventory s)]"
    and "redo_stack (snd (perform a s)) = []"
  using assms by (cases a; simp add: add_inbound_effects add_outbound_effects)+

lemma transaction_journal_length:
  assumes "is_transaction a"
  shows "length (df_transactions (snd (perform a s)))
           = length (df_transactions s) + length (committed [a] s)"
proof (cases "committed_msg (fst (perform a s))")
  case True
  then show ?thesis by (simp add: perform_committed(1))
next
  case False
  show ?thesis
  proof (cases a)
    case (AddInbound r)
    then show ?thesis
      using False by (simp add: add_inbound_effects committed_msg_def)
  next
    case (AddOutbound r)
    then have "\<not> committed_msg (fst (perform (AddOutbound r) s))"
      using False by simp
    then show ?thesis
      using False AddOutbound perform_outbound_failed(1) [of r s] by simp
  qed (use assms in simp_all)
qed

lemma run_journal_length:
  assumes "\<forall>a\<in>set acts. is_transaction a"
  shows "length (df_transactions (run acts s))
           = length (df_transactions s) + length (committed acts s)"
  using assms
proof (induction acts arbitrary: s)
  case Nil
  then show ?case by simp
next
  case (Cons a acts)
  have "length (df_transactions (run acts (snd (perform a s))))
          = length (df_transactions (snd (perform a s))) + length (committed acts (snd (perform a s)))"
    using Cons by simp
  moreover have "length (df_transactions (snd (perform a s)))
          = length (df_transactions s) + length (committed [a] s)"
    using Cons.prems by (simp add: transaction_journal_length)
  ultimately show ?case by simp
qed

text \<open>
  C7 as stated does not hold: a rejected request leaves its snapshot on the undo
  stack (line 156, return at line 167). After the two committed requests and
  the rejected one of the example, undo succeeds and gives back the tables as
  they already were: the journal keeps its two rows and the stock stays 6, not
  the one row and the stock 10 of the state before the second transaction.
\<close>

theorem undo_after_rejected_request_counterexample:
  "length (committed example_requests init_state) = 2
   \<and> undo_stack init_state = [] \<and> redo_stack init_state = []
   \<and> fst (undo_action (run example_requests init_state)) = UndoDone
   \<and> length (df_transactions (snd (undo_action (run example_requests init_state)))) = 2
   \<and> stock_of ''widget'' (df_inventory (snd (undo_action (run example_requests init_state)))) = Some 6
   \<and> stock_of ''widget'' (df_inventory (run [AddInbound (widget 1 10)] init_state)) = Some 10"
  by (simp add: example_requests_def run_defs committed_msg_def)

text \<open>
  C7, amended. After a non-empty sequence of inbound and outbound requests made
  from a state with empty stacks and an empty journal, of which N are committed,
  undo succeeds, the journal and the stock table are those of the state before
  the last request, and the redo stack is one deeper than before the undo. When
  the last request was committed, that state is the one before the N-th
  transaction and the journal has N - 1 rows, whether or not rejected requests
  came earlier; when the last request was rejected, the journal still has its N
  rows.
\<close>

theorem undo_after_requests:
  assumes "acts \<noteq> []" and "\<forall>a\<in>set acts. is_transaction a"
      and "undo_stack s0 = []" and "redo_stack s0 = []" and "df_transactions s0 = []"
  shows "fst (undo_action (run acts s0)) = UndoDone
       \<and> df_transactions (snd (undo_action (run acts s0))) = df_transactions (run (butlast acts) s0)
       \<and> df_inventory (snd (undo_action (run acts s0))) = df_inventory (run (butlast acts) s0)
       \<and> length (redo_stack (snd (undo_action (run acts s0))))
           = length (redo_stack (run acts s0)) + 1
       \<and> length (df_transactions (snd (undo_action (run acts s0))))
           = (if committed_msg (fst (perform (last acts) (run (butlast acts) s0)))
              then length (committed acts s0) - 1
              else length (committed acts s0))"
proof -
  let ?before = "run (butlast acts) s0"
  have split: "acts = butlast acts @ [last acts]"
    using assms(1) by simp
  have tx_last: "is_transaction (last acts)"
    using assms(1,2) by simp
  have tx_front: "\<forall>a\<in>set (butlast acts). is_transaction a"
    using assms(2) by (auto dest: in_set_butlastD)
  have now_eq: "run acts s0 = snd (perform (last acts) ?before)"
    using run_append [of "butlast acts" "[last acts]" s0] split by simp
  have stack: "undo_stack (run acts s0)
      = undo_stack ?before @ [(df_transactions ?before, df_inventory ?before)]"
    using transaction_pushes(1) [OF tx_last, of ?before] now_eq by simp
  have len: "length (df_transactions ?before) = length (committed (butlast acts) s0)"
    using run_journal_length [OF tx_front, of s0] assms(5) by simp
  have "committed acts s0 = committed (butlast acts) s0 @ committed [last acts] ?before"
    using committed_append [of "butlast acts" "[last acts]" s0] split by simp
  then have count: "length (committed acts s0)
      = length (committed (butlast acts) s0)
        + (if committed_msg (fst (perform (last acts) ?before)) then 1 else 0)"
    by simp
  have restored: "fst (undo_action (run acts s0)) = UndoDone
      \<and> df_transactions (snd (undo_action (run acts s0))) = df_transactions ?before
      \<and> df_inventory (snd (undo_action (run acts s0))) = df_inventory ?before
      \<and> length (redo_stack (snd (undo_action (run acts s0))))
           = length (redo_stack (run acts s0)) + 1"
    using stack
    by (simp add: undo_action_def save_transactions_def save_inventory_def Let_def)
  then have "length (df_transactions (snd (undo_action (run acts s0))))
      = length (committed (butlast acts) s0)"
    using len by simp
  then show ?thesis
    using restored count by simp
qed

theorem undo_after_requests_witness:
  "rejected_then_committed \<noteq> []
   \<and> list_all is_transaction rejected_then_committed
   \<and> undo_stack init_state = [] \<and> redo_stack init_state = [] \<and> df_transactions init_state = []
   \<and> committed_msg (fst (perform (last rejected_then_committed)
        (run (butlast rejected_then_committed) init_state)))
   \<and> length (committed rejected_then_committed init_state) = 2
   \<and> fst (undo_action (run rejected_then_committed init_state)) = UndoDone
   \<and> length (df_transactions (snd (undo_action (run rejected_then_committed init_state)))) = 1
   \<and> stock_of ''widget'' (df_inventory (snd (undo_action (run rejected_then_committed init_state))))
       = Some 10
   \<and> length (redo_stack (snd (undo_action (run rejected_then_committed init_state)))) = 1"
proof -
  have h1: "rejected_then_committed \<noteq> []"
    by (simp add: rejected_then_committed_def)
  have h2: "\<forall>a\<in>set rejected_then_committed. is_transaction a"
    by (simp add: rejected_then_committed_def)
  have h3: "undo_stack init_state = []" and h4: "redo_stack init_state = []"
    and h5: "df_transactions init_state = []"
    by (simp_all add: init_state_def)
  have c: "committed rejected_then_committed init_state
             = [AddInbound (widget 1 10), AddOutbound (widget 3 4)]"
    by (simp add: rejected_then_committed_def run_defs committed_msg_def)
  have l: "committed_msg (fst (perform (last rejected_then_committed)
        (run (butlast rejected_then_committed) init_state)))"
    by (simp add: rejected_then_committed_def run_defs committed_msg_def)
  have b: "stock_of ''widget'' (df_inventory (run (butlast rejected_then_committed) init_state))
             = Some 10"
    by (simp add: rejected_then_committed_def run_defs)
  have r: "redo_stack (run rejected_then_committed init_state) = []"
    by (simp add: rejected_then_committed_def add_outbound_effects)
  have j: "length (df_transactions (run (butlast rejected_then_committed) init_state)) = 1"
    by (simp add: rejected_then_committed_def run_defs)
  note t = undo_after_requests [OF h1 h2 h3 h4 h5]
  show ?thesis
    using h1 h2 h3 h4 h5 c l b r j t
    by (simp add: list_all_iff)
qed

end
